theory Spec2Isabelle
  imports Complex_Main
begin

section \<open>mp3-check: silence model, boundary classifier, counting and repair\<close>

text \<open>
  A shallow embedding of the analysis-and-repair core of mp3-check (the Go file with
  \<open>getSilenceInfo\<close>, the six boundary predicates, \<open>countProblems\<close> and \<open>fixProblems\<close>).

  Modelling decisions, each visible in the definitions below:
  \<^item> Go's \<open>float64\<close> is modelled by \<open>real\<close>: comparisons and the few additions and
    subtractions of the source are exact here, where the source rounds to the nearest
    double. NaN and infinities (possible only for absurd digit strings) are not modelled.
  \<^item> \<open>uint\<close> counters are \<open>nat\<close>: a counter is incremented at most once per track, and a
    collection of \<open>2 ^ 64\<close> tracks does not fit in memory.
  \<^item> A Go \<open>map\<close> that is only iterated is an association list; its order is the order in
    which \<open>range\<close> happens to visit it.
  \<^item> The back pointers (\<open>*album\<close>, \<open>*artist\<close>) and the \<open>tracksByName\<close> indexes are left
    out: none of the functions below reads them.
  \<^item> The worker pool is sequentialised: every track is handled by exactly one worker and
    the body of the worker loop touches only its own track, so the loop body is a function
    of one track, folded over the collection.
  \<^item> External programs and library calls are parameters: the silence detector returns the
    lines of the tool's output with the three regular expressions already applied, the trim
    tool returns its exit status and what it left at its output path.
\<close>

subsection \<open>Constants\<close>

definition tolerance :: real where
  "tolerance = 0.01"

definition maxOverlapping :: real where
  "maxOverlapping = 10"

definition maxSilence :: real where
  "maxSilence = 2"

definition minSilence :: real where
  "minSilence = 0.6"

definition silenceTolerance :: real where
  "silenceTolerance = 0.4"

subsection \<open>Data model\<close>

text \<open>The struct \<open>silence\<close>; its field \<open>end\<close> is written \<open>end'\<close>, \<open>end\<close> being a keyword.\<close>

record silence =
  start :: real
  end' :: real

record track =
  name :: string
  path :: string
  trackNumber :: int
  diskNumber :: int
  silences :: "silence list"
  longSilences :: "silence list"
  duration :: real

record album =
  name :: string
  tracks :: "(int \<times> (int \<times> track) list) list"

record artist =
  name :: string
  albums :: "(string \<times> album) list"

type_synonym artistMap = "(string \<times> artist) list"

subsection \<open>Reading the detector's output: \<open>getSilenceInfo\<close>\<close>







subsection \<open>The boundary classifier\<close>

definition overlapsAtTheEnd :: "track \<Rightarrow> bool" where
  "overlapsAtTheEnd t =
     (if length (silences t) = 0 then False
      else (let lastSilence = silences t ! (length (silences t) - 1);
                difference = duration t - end' lastSilence
            in if difference < maxOverlapping \<and> difference > tolerance then True else False))"

definition overlapsAtTheBeginning :: "track \<Rightarrow> bool" where
  "overlapsAtTheBeginning t =
     (if length (silences t) = 0 then False
      else (let firstSilence = silences t ! 0
            in if start firstSilence < maxOverlapping \<and> start firstSilence > tolerance then True
               else False))"

definition truncatedAtTheBeginning :: "track \<Rightarrow> bool" where
  "truncatedAtTheBeginning t =
     (if length (silences t) = 0 then True
      else (let firstSilence = silences t ! 0
            in if start firstSilence \<ge> maxOverlapping then True else False))"

definition truncatedAtTheEnd :: "track \<Rightarrow> bool" where
  "truncatedAtTheEnd t =
     (if length (silences t) = 0 then True
      else (let lastSilence = silences t ! (length (silences t) - 1);
                difference = duration t - end' lastSilence
            in if difference \<ge> maxOverlapping then True else False))"

definition hugeSilenceAtTheBeginning :: "track \<Rightarrow> bool" where
  "hugeSilenceAtTheBeginning t =
     (if length (longSilences t) = 0 then False
      else (let firstSilence = longSilences t ! 0
            in if start firstSilence \<ge> maxOverlapping then False else True))"

definition hugeSilenceAtTheEnd :: "track \<Rightarrow> bool" where
  "hugeSilenceAtTheEnd t =
     (if length (longSilences t) = 0 then False
      else (let lastSilence = longSilences t ! (length (longSilences t) - 1);
                difference = duration t - end' lastSilence
            in if difference \<ge> maxOverlapping then False else True))"

subsection \<open>Walking the collection\<close>

text \<open>
  The four nested \<open>range\<close> loops over artists, albums, disks and tracks, which
  \<open>countProblems\<close> and \<open>fixProblems\<close> both spell out, with the loop body \<open>f\<close> acting on a
  state.
\<close>

definition forEachTrack :: "(track \<Rightarrow> 's \<Rightarrow> 's) \<Rightarrow> artistMap \<Rightarrow> 's \<Rightarrow> 's" where
  "forEachTrack f data =
     fold (\<lambda>(_, artist).
       fold (\<lambda>(_, album).
         fold (\<lambda>(_, disk).
           fold (\<lambda>(_, t). f t) disk) (tracks album)) (albums artist)) data"

text \<open>The tracks in the order the loops visit them (used to state properties only).\<close>

definition allTracks :: "artistMap \<Rightarrow> track list" where
  "allTracks data =
     concat (map (\<lambda>(_, artist).
       concat (map (\<lambda>(_, album).
         concat (map (\<lambda>(_, disk). map snd disk) (tracks album))) (albums artist))) data)"

subsection \<open>\<open>countProblems\<close>\<close>

text \<open>The body of the innermost loop, on the pair \<open>(problems, fixable)\<close>.\<close>

definition countTrack :: "track \<Rightarrow> nat \<times> nat \<Rightarrow> nat \<times> nat" where
  "countTrack t c =
     (case c of (problems, fixable) \<Rightarrow>
        if truncatedAtTheBeginning t \<or> truncatedAtTheEnd t then (problems + 1, fixable)
        else if overlapsAtTheEnd t \<or> overlapsAtTheBeginning t
                \<or> hugeSilenceAtTheBeginning t \<or> hugeSilenceAtTheEnd t
             then (problems + 1, fixable + 1)
             else (problems, fixable))"

definition countProblems :: "artistMap \<Rightarrow> nat \<times> nat" where
  "countProblems data = forEachTrack countTrack data (0, 0)"

subsection \<open>\<open>fixProblems\<close>\<close>

text \<open>
  Lines 468 to 489 of the worker loop: the trim window \<open>(start, end)\<close>. Each indexing is
  inside the test that makes it safe, as in the source.
\<close>

definition trimWindow :: "track \<Rightarrow> real \<times> real" where
  "trimWindow t =
     (let start0 = 0;
          end0 = duration t;
          start1 = (if overlapsAtTheBeginning t
                    then max start0 (start (silences t ! 0) + silenceTolerance) else start0);
          start2 = (if hugeSilenceAtTheBeginning t
                    then max start1 (end' (longSilences t ! 0) - maxSilence) else start1);
          end1 = (if overlapsAtTheEnd t
                  then min end0 (end' (silences t ! (length (silences t) - 1)) - silenceTolerance)
                  else end0);
          end2 = (if hugeSilenceAtTheEnd t
                  then min end1 (start (longSilences t ! (length (longSilences t) - 1)) + maxSilence)
                  else end1)
      in (start2, end2))"

text \<open>
  The world the executor acts on: the files (path to content) and the log of the calls it
  made. \<open>Ffmpeg ss t input output\<close> is the trim invocation
  \<open>ffmpeg -ss ss -t t -i input -codec copy output\<close>.
\<close>

datatype command =
    Remove string
  | Rename string string
  | Ffmpeg real real string string

record world =
  files :: "string \<Rightarrow> string option"
  cmds :: "command list"

text \<open>
  The trim tool, given \<open>-ss\<close>, \<open>-t\<close>, input path, output path and the files it finds:
  whether it exited with status 0, and what it left at its output path (\<open>None\<close>: no file).
  It writes nowhere else.
\<close>

type_synonym trimmer = "real \<Rightarrow> real \<Rightarrow> string \<Rightarrow> string \<Rightarrow> (string \<Rightarrow> string option) \<Rightarrow> bool \<times> string option"

text \<open>\<open>os.Remove\<close> and \<open>os.Rename\<close>; the source drops their errors.\<close>

definition os_Remove :: "string \<Rightarrow> world \<Rightarrow> world" where
  "os_Remove p w = w\<lparr>files := (files w)(p := None), cmds := cmds w @ [Remove p]\<rparr>"

definition os_Rename :: "string \<Rightarrow> string \<Rightarrow> world \<Rightarrow> world" where
  "os_Rename old new w =
     w\<lparr>files := (case files w old of
                   None \<Rightarrow> files w
                 | Some c \<Rightarrow> (files w)(old := None, new := Some c)),
       cmds := cmds w @ [Rename old new]\<rparr>"

definition cmd_Run :: "trimmer \<Rightarrow> real \<Rightarrow> real \<Rightarrow> string \<Rightarrow> string \<Rightarrow> world \<Rightarrow> bool \<times> world" where
  "cmd_Run tool ss len inp out w =
     (case tool ss len inp out (files w) of
        (ok, written) \<Rightarrow>
          (ok, w\<lparr>files := (files w)(out := written), cmds := cmds w @ [Ffmpeg ss len inp out]\<rparr>))"

text \<open>The body of the worker loop of \<open>fixProblems\<close> (lines 468 to 499), for one track.\<close>

definition fixTrack :: "trimmer \<Rightarrow> track \<Rightarrow> world \<Rightarrow> world" where
  "fixTrack tool t w =
     (case trimWindow t of
        (s, e) \<Rightarrow>
          if s \<noteq> 0 \<or> e \<noteq> duration t then
            (let w1 = os_Remove (path t @ ''.tmp.mp3'') w
             in case cmd_Run tool s (e - s) (path t) (path t @ ''.tmp.mp3'') w1 of
                  (ok, w2) \<Rightarrow>
                    if ok then os_Rename (path t @ ''.tmp.mp3'') (path t) (os_Remove (path t) w2)
                    else w2)
          else w)"


subsection \<open>Notions used to state the properties\<close>

text \<open>
  Two interval lists agree on emptiness and, when not empty, on their first and last
  interval.
\<close>

definition sameEnds :: "silence list \<Rightarrow> silence list \<Rightarrow> bool" where
  "sameEnds xs ys =
     ((xs = [] \<and> ys = []) \<or>
      (xs \<noteq> [] \<and> ys \<noteq> [] \<and> xs ! 0 = ys ! 0 \<and> xs ! (length xs - 1) = ys ! (length ys - 1)))"



section \<open>Properties\<close>

lemmas consts_defs =
  tolerance_def maxOverlapping_def maxSilence_def minSilence_def silenceTolerance_def

lemmas pred_defs =
  overlapsAtTheEnd_def overlapsAtTheBeginning_def truncatedAtTheBeginning_def
  truncatedAtTheEnd_def hugeSilenceAtTheBeginning_def hugeSilenceAtTheEnd_def

subsection \<open>The classifier\<close>







text \<open>
  C8. A track whose short list is empty is truncated at the beginning and at the end, and
  overlaps at neither.
\<close>

theorem empty_short_set_truncated:
  assumes "silences t = []"
  shows "truncatedAtTheBeginning t \<and> truncatedAtTheEnd t
         \<and> \<not> overlapsAtTheBeginning t \<and> \<not> overlapsAtTheEnd t"
  using assms by (simp add: pred_defs)

theorem empty_short_set_truncated_witness:
  "silences \<lparr>track.name = ''t'', path = ''a.mp3'', trackNumber = 1, diskNumber = 1,
       silences = [], longSilences = [], duration = 180\<rparr> = []
   \<and> truncatedAtTheBeginning \<lparr>track.name = ''t'', path = ''a.mp3'', trackNumber = 1, diskNumber = 1,
       silences = [], longSilences = [], duration = 180\<rparr>
   \<and> truncatedAtTheEnd \<lparr>track.name = ''t'', path = ''a.mp3'', trackNumber = 1, diskNumber = 1,
       silences = [], longSilences = [], duration = 180\<rparr>"
  using empty_short_set_truncated [of "\<lparr>track.name = ''t'', path = ''a.mp3'', trackNumber = 1, diskNumber = 1,
       silences = [], longSilences = [], duration = 180\<rparr>"]
  by simp

text \<open>
  C10. Two tracks whose short lists agree on emptiness, first and last interval, whose long
  lists agree likewise, and whose durations are equal, get the same six predicates and the
  same trim window.
\<close>

theorem predicates_depend_on_ends:
  assumes "sameEnds (silences a) (silences b)"
    and "sameEnds (longSilences a) (longSilences b)"
    and "duration a = duration b"
  shows "overlapsAtTheBeginning a = overlapsAtTheBeginning b
       \<and> overlapsAtTheEnd a = overlapsAtTheEnd b
       \<and> truncatedAtTheBeginning a = truncatedAtTheBeginning b
       \<and> truncatedAtTheEnd a = truncatedAtTheEnd b
       \<and> hugeSilenceAtTheBeginning a = hugeSilenceAtTheBeginning b
       \<and> hugeSilenceAtTheEnd a = hugeSilenceAtTheEnd b
       \<and> trimWindow a = trimWindow b"
proof -
  have ob: "overlapsAtTheBeginning a = overlapsAtTheBeginning b"
    using assms(1) by (auto simp add: sameEnds_def overlapsAtTheBeginning_def)
  have oe: "overlapsAtTheEnd a = overlapsAtTheEnd b"
    using assms(1,3) by (auto simp add: sameEnds_def overlapsAtTheEnd_def)
  have tb: "truncatedAtTheBeginning a = truncatedAtTheBeginning b"
    using assms(1) by (auto simp add: sameEnds_def truncatedAtTheBeginning_def)
  have te: "truncatedAtTheEnd a = truncatedAtTheEnd b"
    using assms(1,3) by (auto simp add: sameEnds_def truncatedAtTheEnd_def)
  have hb: "hugeSilenceAtTheBeginning a = hugeSilenceAtTheBeginning b"
    using assms(2) by (auto simp add: sameEnds_def hugeSilenceAtTheBeginning_def)
  have he: "hugeSilenceAtTheEnd a = hugeSilenceAtTheEnd b"
    using assms(2,3) by (auto simp add: sameEnds_def hugeSilenceAtTheEnd_def)
  have s0: "overlapsAtTheBeginning a \<Longrightarrow> silences a ! 0 = silences b ! 0"
    using assms(1) by (auto simp add: sameEnds_def overlapsAtTheBeginning_def)
  have s1: "overlapsAtTheEnd a \<Longrightarrow>
      silences a ! (length (silences a) - 1) = silences b ! (length (silences b) - 1)"
    using assms(1) by (auto simp add: sameEnds_def overlapsAtTheEnd_def)
  have l0: "hugeSilenceAtTheBeginning a \<Longrightarrow> longSilences a ! 0 = longSilences b ! 0"
    using assms(2) by (auto simp add: sameEnds_def hugeSilenceAtTheBeginning_def)
  have l1: "hugeSilenceAtTheEnd a \<Longrightarrow>
      longSilences a ! (length (longSilences a) - 1) = longSilences b ! (length (longSilences b) - 1)"
    using assms(2) by (auto simp add: sameEnds_def hugeSilenceAtTheEnd_def)
  have tw: "trimWindow a = trimWindow b"
    unfolding trimWindow_def Let_def
    using ob oe hb he s0 s1 l0 l1 assms(3) by auto
  from ob oe tb te hb he tw show ?thesis by simp
qed

text \<open>Two tracks that differ in a middle interval (and in name, path and number).\<close>

theorem predicates_depend_on_ends_witness:
  "sameEnds [\<lparr>start = 0.3, end' = 0.5\<rparr>, \<lparr>start = 40, end' = 41\<rparr>, \<lparr>start = 195, end' = 199\<rparr>]
            [\<lparr>start = 0.3, end' = 0.5\<rparr>, \<lparr>start = 195, end' = 199\<rparr>]
   \<and> sameEnds [\<lparr>start = 195, end' = 199\<rparr>] [\<lparr>start = 195, end' = 199\<rparr>]
   \<and> trimWindow \<lparr>track.name = ''t'', path = ''a.mp3'', trackNumber = 1, diskNumber = 1,
       silences = [\<lparr>start = 0.3, end' = 0.5\<rparr>, \<lparr>start = 40, end' = 41\<rparr>, \<lparr>start = 195, end' = 199\<rparr>],
       longSilences = [\<lparr>start = 195, end' = 199\<rparr>], duration = 200\<rparr>
     = trimWindow \<lparr>track.name = ''u'', path = ''b.mp3'', trackNumber = 2, diskNumber = 1,
       silences = [\<lparr>start = 0.3, end' = 0.5\<rparr>, \<lparr>start = 195, end' = 199\<rparr>],
       longSilences = [\<lparr>start = 195, end' = 199\<rparr>], duration = 200\<rparr>
   \<and> trimWindow \<lparr>track.name = ''u'', path = ''b.mp3'', trackNumber = 2, diskNumber = 1,
       silences = [\<lparr>start = 0.3, end' = 0.5\<rparr>, \<lparr>start = 195, end' = 199\<rparr>],
       longSilences = [\<lparr>start = 195, end' = 199\<rparr>], duration = 200\<rparr> = (0.7, 197)"
proof -
  let ?a = "\<lparr>track.name = ''t'', path = ''a.mp3'', trackNumber = 1, diskNumber = 1,
       silences = [\<lparr>start = 0.3, end' = 0.5\<rparr>, \<lparr>start = 40, end' = 41\<rparr>, \<lparr>start = 195, end' = 199\<rparr>],
       longSilences = [\<lparr>start = 195, end' = 199\<rparr>], duration = 200\<rparr>"
  let ?b = "\<lparr>track.name = ''u'', path = ''b.mp3'', trackNumber = 2, diskNumber = 1,
       silences = [\<lparr>start = 0.3, end' = 0.5\<rparr>, \<lparr>start = 195, end' = 199\<rparr>],
       longSilences = [\<lparr>start = 195, end' = 199\<rparr>], duration = 200\<rparr>"
  have h1: "sameEnds (silences ?a) (silences ?b)" by (simp add: sameEnds_def)
  have h2: "sameEnds (longSilences ?a) (longSilences ?b)" by (simp add: sameEnds_def)
  have h3: "duration ?a = duration ?b" by simp
  have v: "trimWindow ?b = (0.7, 197)"
    by (simp add: pred_defs trimWindow_def consts_defs)
  from predicates_depend_on_ends [OF h1 h2 h3] h1 h2 v show ?thesis by simp
qed

subsection \<open>The trim window\<close>



subsection \<open>Counting\<close>

lemma fold_concat_map:
  "fold f (concat (map g xs)) = fold (\<lambda>x. fold f (g x)) xs"
  by (induction xs) simp_all

lemma forEachTrack_fold: "forEachTrack f data s = fold f (allTracks data) s"
  unfolding forEachTrack_def allTracks_def
  by (simp add: fold_concat_map fold_map comp_def case_prod_unfold)

lemma fold_countTrack:
  "fold countTrack ts (p, f) =
     (p + length (filter (\<lambda>t. (truncatedAtTheBeginning t \<or> truncatedAtTheEnd t)
            \<or> (overlapsAtTheEnd t \<or> overlapsAtTheBeginning t
                \<or> hugeSilenceAtTheBeginning t \<or> hugeSilenceAtTheEnd t)) ts),
      f + length (filter (\<lambda>t. \<not> (truncatedAtTheBeginning t \<or> truncatedAtTheEnd t)
            \<and> (overlapsAtTheEnd t \<or> overlapsAtTheBeginning t
                \<or> hugeSilenceAtTheBeginning t \<or> hugeSilenceAtTheEnd t)) ts))"
  by (induction ts arbitrary: p f) (simp_all add: countTrack_def)

lemma length_filter_mono:
  "(\<And>x. Q x \<Longrightarrow> P x) \<Longrightarrow> length (filter Q xs) \<le> length (filter P xs)"
  by (induction xs) auto

text \<open>
  C7. \<open>problems\<close> is the number of tracks that are truncated at either boundary or have
  one of the four overlap and huge-silence predicates; \<open>fixable\<close> is the number of tracks
  that are not truncated and have one of the four. So a track adds at most 1 to
  \<open>problems\<close>, a truncated track adds nothing to \<open>fixable\<close> whatever its other predicates,
  and \<open>fixable\<close> never exceeds \<open>problems\<close>, which never exceeds the number of tracks. One
  step of the loop raises \<open>problems\<close> by at most 1, and \<open>fixable\<close> by no more than
  \<open>problems\<close>.
\<close>

theorem countProblems_counts:
  "countProblems data =
     (length (filter (\<lambda>t. (truncatedAtTheBeginning t \<or> truncatedAtTheEnd t)
            \<or> (overlapsAtTheEnd t \<or> overlapsAtTheBeginning t
                \<or> hugeSilenceAtTheBeginning t \<or> hugeSilenceAtTheEnd t)) (allTracks data)),
      length (filter (\<lambda>t. \<not> (truncatedAtTheBeginning t \<or> truncatedAtTheEnd t)
            \<and> (overlapsAtTheEnd t \<or> overlapsAtTheBeginning t
                \<or> hugeSilenceAtTheBeginning t \<or> hugeSilenceAtTheEnd t)) (allTracks data)))
   \<and> snd (countProblems data) \<le> fst (countProblems data)
   \<and> fst (countProblems data) \<le> length (allTracks data)
   \<and> fst (countTrack t (p, f)) \<le> p + 1
   \<and> snd (countTrack t (p, f)) - f \<le> fst (countTrack t (p, f)) - p"
proof -
  have eq: "countProblems data =
     (length (filter (\<lambda>t. (truncatedAtTheBeginning t \<or> truncatedAtTheEnd t)
            \<or> (overlapsAtTheEnd t \<or> overlapsAtTheBeginning t
                \<or> hugeSilenceAtTheBeginning t \<or> hugeSilenceAtTheEnd t)) (allTracks data)),
      length (filter (\<lambda>t. \<not> (truncatedAtTheBeginning t \<or> truncatedAtTheEnd t)
            \<and> (overlapsAtTheEnd t \<or> overlapsAtTheBeginning t
                \<or> hugeSilenceAtTheBeginning t \<or> hugeSilenceAtTheEnd t)) (allTracks data)))"
    by (simp add: countProblems_def forEachTrack_fold fold_countTrack)
  have le: "snd (countProblems data) \<le> fst (countProblems data)"
    unfolding eq by (simp, rule length_filter_mono, blast)
  have ub: "fst (countProblems data) \<le> length (allTracks data)"
    unfolding eq by simp
  have st: "fst (countTrack t (p, f)) \<le> p + 1"
    by (simp add: countTrack_def)
  have st2: "snd (countTrack t (p, f)) - f \<le> fst (countTrack t (p, f)) - p"
    by (simp add: countTrack_def)
  from eq le ub st st2 show ?thesis by blast
qed

subsection \<open>The repair executor\<close>

text \<open>
  C9. A track whose window is exactly \<open>(0, duration)\<close> leaves the world as it was: no call
  is logged and no file changes.
\<close>

theorem fixTrack_identity_window:
  assumes "trimWindow t = (0, duration t)"
  shows "fixTrack tool t w = w"
  using assms by (simp add: fixTrack_def)

theorem fixTrack_identity_window_witness:
  "trimWindow \<lparr>track.name = ''t'', path = ''a.mp3'', trackNumber = 1, diskNumber = 1,
       silences = [], longSilences = [], duration = 180\<rparr>
     = (0, duration \<lparr>track.name = ''t'', path = ''a.mp3'', trackNumber = 1, diskNumber = 1,
       silences = [], longSilences = [], duration = 180\<rparr>)
   \<and> fixTrack (\<lambda>ss len inp out fs. (True, Some ''trimmed''))
       \<lparr>track.name = ''t'', path = ''a.mp3'', trackNumber = 1, diskNumber = 1,
         silences = [], longSilences = [], duration = 180\<rparr>
       \<lparr>files = (\<lambda>p. if p = ''a.mp3'' then Some ''audio'' else None), cmds = []\<rparr>
     = \<lparr>files = (\<lambda>p. if p = ''a.mp3'' then Some ''audio'' else None), cmds = []\<rparr>"
proof -
  let ?t = "\<lparr>track.name = ''t'', path = ''a.mp3'', trackNumber = 1, diskNumber = 1,
       silences = [], longSilences = [], duration = 180\<rparr>"
  have h: "trimWindow ?t = (0, duration ?t)"
    by (simp add: trimWindow_def overlapsAtTheBeginning_def overlapsAtTheEnd_def
        hugeSilenceAtTheBeginning_def hugeSilenceAtTheEnd_def)
  from h fixTrack_identity_window [OF h] show ?thesis by simp
qed

text \<open>
  C6, as the code has it. For a track whose window is not \<open>(0, duration)\<close>, the executor
  removes the temporary path, runs the trim tool, and then: on failure does nothing more, so
  the original keeps its content and the temporary path holds whatever the tool left there;
  on success removes the original and renames the temporary file onto it.
\<close>

theorem fixTrack_trim_outcome:
  assumes "trimWindow t = (s, e)"
    and "s \<noteq> 0 \<or> e \<noteq> duration t"
    and "tool s (e - s) (path t) (path t @ ''.tmp.mp3'') ((files w)(path t @ ''.tmp.mp3'' := None))
           = (ok, written)"
  shows "fixTrack tool t w =
     (if ok
      then \<lparr>files = (files w)(path t @ ''.tmp.mp3'' := None, path t := written),
            cmds = cmds w @ [Remove (path t @ ''.tmp.mp3''),
                             Ffmpeg s (e - s) (path t) (path t @ ''.tmp.mp3''),
                             Remove (path t),
                             Rename (path t @ ''.tmp.mp3'') (path t)]\<rparr>
      else \<lparr>files = (files w)(path t @ ''.tmp.mp3'' := written),
            cmds = cmds w @ [Remove (path t @ ''.tmp.mp3''),
                             Ffmpeg s (e - s) (path t) (path t @ ''.tmp.mp3'')]\<rparr>)
   \<and> (if ok then files (fixTrack tool t w) (path t) = written
               \<and> files (fixTrack tool t w) (path t @ ''.tmp.mp3'') = None
       else files (fixTrack tool t w) (path t) = files w (path t)
               \<and> files (fixTrack tool t w) (path t @ ''.tmp.mp3'') = written)"
proof -
  let ?tmp = "path t @ ''.tmp.mp3''"
  have ne: "?tmp \<noteq> path t" by simp
  have ne': "path t \<noteq> ?tmp" using ne by metis
  have run: "cmd_Run tool s (e - s) (path t) ?tmp (os_Remove ?tmp w) =
      (ok, \<lparr>files = (files w)(?tmp := written),
            cmds = cmds w @ [Remove ?tmp, Ffmpeg s (e - s) (path t) ?tmp]\<rparr>)"
    using assms(3) by (simp add: cmd_Run_def os_Remove_def)
  have fx: "fixTrack tool t w =
      (if ok then os_Rename ?tmp (path t) (os_Remove (path t)
                 \<lparr>files = (files w)(?tmp := written),
                  cmds = cmds w @ [Remove ?tmp, Ffmpeg s (e - s) (path t) ?tmp]\<rparr>)
       else \<lparr>files = (files w)(?tmp := written),
             cmds = cmds w @ [Remove ?tmp, Ffmpeg s (e - s) (path t) ?tmp]\<rparr>)"
    using assms(1,2) run by (auto simp add: fixTrack_def Let_def)
  have ok_case: "os_Rename ?tmp (path t) (os_Remove (path t)
                 \<lparr>files = (files w)(?tmp := written),
                  cmds = cmds w @ [Remove ?tmp, Ffmpeg s (e - s) (path t) ?tmp]\<rparr>)
      = \<lparr>files = (files w)(?tmp := None, path t := written),
         cmds = cmds w @ [Remove ?tmp, Ffmpeg s (e - s) (path t) ?tmp,
                          Remove (path t), Rename ?tmp (path t)]\<rparr>"
    using ne ne' by (cases written) (auto simp add: os_Rename_def os_Remove_def fun_eq_iff)
  have first: "fixTrack tool t w =
     (if ok
      then \<lparr>files = (files w)(?tmp := None, path t := written),
            cmds = cmds w @ [Remove ?tmp, Ffmpeg s (e - s) (path t) ?tmp,
                             Remove (path t), Rename ?tmp (path t)]\<rparr>
      else \<lparr>files = (files w)(?tmp := written),
            cmds = cmds w @ [Remove ?tmp, Ffmpeg s (e - s) (path t) ?tmp]\<rparr>)"
    using fx ok_case by simp
  have second: "(if ok then files (fixTrack tool t w) (path t) = written
               \<and> files (fixTrack tool t w) ?tmp = None
       else files (fixTrack tool t w) (path t) = files w (path t)
               \<and> files (fixTrack tool t w) ?tmp = written)"
    unfolding first using ne ne' by simp
  from first second show ?thesis by blast
qed

text \<open>A fixable track of 200 seconds, with a tool that fails and one that succeeds.\<close>

theorem fixTrack_trim_outcome_witness:
  "trimWindow \<lparr>track.name = ''t'', path = ''a.mp3'', trackNumber = 1, diskNumber = 1,
       silences = [\<lparr>start = 0.3, end' = 0.5\<rparr>, \<lparr>start = 195, end' = 199.5\<rparr>],
       longSilences = [], duration = 200\<rparr> = (0.7, 199.1)
   \<and> cmds (fixTrack (\<lambda>ss len inp out fs. (False, None))
       \<lparr>track.name = ''t'', path = ''a.mp3'', trackNumber = 1, diskNumber = 1,
         silences = [\<lparr>start = 0.3, end' = 0.5\<rparr>, \<lparr>start = 195, end' = 199.5\<rparr>],
         longSilences = [], duration = 200\<rparr>
       \<lparr>files = (\<lambda>p. if p = ''a.mp3'' then Some ''audio'' else None), cmds = []\<rparr>)
     = [Remove ''a.mp3.tmp.mp3'', Ffmpeg 0.7 198.4 ''a.mp3'' ''a.mp3.tmp.mp3'']
   \<and> files (fixTrack (\<lambda>ss len inp out fs. (False, None))
       \<lparr>track.name = ''t'', path = ''a.mp3'', trackNumber = 1, diskNumber = 1,
         silences = [\<lparr>start = 0.3, end' = 0.5\<rparr>, \<lparr>start = 195, end' = 199.5\<rparr>],
         longSilences = [], duration = 200\<rparr>
       \<lparr>files = (\<lambda>p. if p = ''a.mp3'' then Some ''audio'' else None), cmds = []\<rparr>) ''a.mp3''
     = Some ''audio''
   \<and> cmds (fixTrack (\<lambda>ss len inp out fs. (True, Some ''trimmed''))
       \<lparr>track.name = ''t'', path = ''a.mp3'', trackNumber = 1, diskNumber = 1,
         silences = [\<lparr>start = 0.3, end' = 0.5\<rparr>, \<lparr>start = 195, end' = 199.5\<rparr>],
         longSilences = [], duration = 200\<rparr>
       \<lparr>files = (\<lambda>p. if p = ''a.mp3'' then Some ''audio'' else None), cmds = []\<rparr>)
     = [Remove ''a.mp3.tmp.mp3'', Ffmpeg 0.7 198.4 ''a.mp3'' ''a.mp3.tmp.mp3'',
        Remove ''a.mp3'', Rename ''a.mp3.tmp.mp3'' ''a.mp3'']
   \<and> files (fixTrack (\<lambda>ss len inp out fs. (True, Some ''trimmed''))
       \<lparr>track.name = ''t'', path = ''a.mp3'', trackNumber = 1, diskNumber = 1,
         silences = [\<lparr>start = 0.3, end' = 0.5\<rparr>, \<lparr>start = 195, end' = 199.5\<rparr>],
         longSilences = [], duration = 200\<rparr>
       \<lparr>files = (\<lambda>p. if p = ''a.mp3'' then Some ''audio'' else None), cmds = []\<rparr>) ''a.mp3''
     = Some ''trimmed''"
proof -
  let ?t = "\<lparr>track.name = ''t'', path = ''a.mp3'', trackNumber = 1, diskNumber = 1,
       silences = [\<lparr>start = 0.3, end' = 0.5\<rparr>, \<lparr>start = 195, end' = 199.5\<rparr>],
       longSilences = [], duration = 200\<rparr>"
  let ?w = "\<lparr>files = (\<lambda>p. if p = ''a.mp3'' then Some ''audio'' else None), cmds = []\<rparr>"
  let ?bad = "(\<lambda>ss len inp out fs. (False, None)) :: trimmer"
  let ?good = "(\<lambda>ss len inp out fs. (True, Some ''trimmed'')) :: trimmer"
  have h1: "trimWindow ?t = (0.7, 199.1)"
    by (simp add: trimWindow_def pred_defs consts_defs)
  have h2: "(0.7::real) \<noteq> 0 \<or> (199.1::real) \<noteq> duration ?t"
    by simp
  have h3: "?bad 0.7 (199.1 - 0.7) (path ?t) (path ?t @ ''.tmp.mp3'')
              ((files ?w)(path ?t @ ''.tmp.mp3'' := None)) = (False, None)"
    by simp
  have h4: "?good 0.7 (199.1 - 0.7) (path ?t) (path ?t @ ''.tmp.mp3'')
              ((files ?w)(path ?t @ ''.tmp.mp3'' := None)) = (True, Some ''trimmed'')"
    by simp
  from h1 fixTrack_trim_outcome [OF h1 h2 h3] fixTrack_trim_outcome [OF h1 h2 h4]
  show ?thesis by simp
qed

text \<open>
  The tool fails after writing part of its output: the partial file is still at the
  temporary path when the executor is done, and the log ends with the tool's run.
\<close>

theorem fixTrack_failure_keeps_temp_counterexample:
  "fst (trimWindow \<lparr>track.name = ''t'', path = ''a.mp3'', trackNumber = 1, diskNumber = 1,
       silences = [\<lparr>start = 0.3, end' = 0.5\<rparr>, \<lparr>start = 195, end' = 199.5\<rparr>],
       longSilences = [], duration = 200\<rparr>) \<noteq> 0
   \<and> files (fixTrack (\<lambda>ss len inp out fs. (False, Some ''partial''))
       \<lparr>track.name = ''t'', path = ''a.mp3'', trackNumber = 1, diskNumber = 1,
         silences = [\<lparr>start = 0.3, end' = 0.5\<rparr>, \<lparr>start = 195, end' = 199.5\<rparr>],
         longSilences = [], duration = 200\<rparr>
       \<lparr>files = (\<lambda>p. if p = ''a.mp3'' then Some ''audio'' else None), cmds = []\<rparr>) ''a.mp3.tmp.mp3''
     = Some ''partial''
   \<and> cmds (fixTrack (\<lambda>ss len inp out fs. (False, Some ''partial''))
       \<lparr>track.name = ''t'', path = ''a.mp3'', trackNumber = 1, diskNumber = 1,
         silences = [\<lparr>start = 0.3, end' = 0.5\<rparr>, \<lparr>start = 195, end' = 199.5\<rparr>],
         longSilences = [], duration = 200\<rparr>
       \<lparr>files = (\<lambda>p. if p = ''a.mp3'' then Some ''audio'' else None), cmds = []\<rparr>)
     = [Remove ''a.mp3.tmp.mp3'', Ffmpeg 0.7 198.4 ''a.mp3'' ''a.mp3.tmp.mp3'']"
  by (simp add: fixTrack_def trimWindow_def pred_defs consts_defs cmd_Run_def os_Remove_def)


subsection \<open>Retention in \<open>getSilenceInfo\<close>\<close>




end
